theory Spec2Isabelle
  imports Main
begin

section \<open>JavaScript strings and values\<close>

text \<open>
  The client is TypeScript running in a browser. Strings are lists of characters; the
  accented letters of the Portuguese messages are all below code point 256 and are
  written as single characters (\<open>CHR 0xE3\<close> is a-tilde), so \<open>length\<close> agrees with
  JavaScript's \<open>.length\<close> on them.
\<close>

fun startsWith :: "string \<Rightarrow> string \<Rightarrow> bool" where
  "startsWith s [] = True"
| "startsWith [] (p # ps) = False"
| "startsWith (c # cs) (p # ps) = (c = p \<and> startsWith cs ps)"

text \<open>\<open>String.prototype.includes\<close>: the second string occurs somewhere in the first.\<close>

fun str_includes :: "string \<Rightarrow> string \<Rightarrow> bool" where
  "str_includes [] sub = (sub = [])"
| "str_includes (c # cs) sub = (startsWith (c # cs) sub \<or> str_includes cs sub)"

text \<open>\<open>toLowerCase\<close> on the ASCII letters (the only ones the probed word "cors" has).\<close>

definition lowerChar :: "char \<Rightarrow> char" where
  "lowerChar c =
     (case map_of (zip ''ABCDEFGHIJKLMNOPQRSTUVWXYZ'' ''abcdefghijklmnopqrstuvwxyz'') c of
        Some l \<Rightarrow> l
      | None \<Rightarrow> c)"

definition toLowerCase :: "string \<Rightarrow> string" where
  "toLowerCase s = map lowerChar s"

text \<open>Decimal rendering of a number inside a template literal such as \<open>HTTP ${status}\<close>.\<close>

definition digit_char :: "nat \<Rightarrow> char" where
  "digit_char d = ''0123456789'' ! d"

fun decimalNat :: "nat \<Rightarrow> string" where
  "decimalNat n =
     (if 10 \<le> n then decimalNat (n div 10) @ [digit_char (n mod 10)]
      else [digit_char n])"

declare decimalNat.simps [simp del]

definition decimalInt :: "int \<Rightarrow> string" where
  "decimalInt i = (if 0 \<le> i then decimalNat (nat i) else CHR ''-'' # decimalNat (nat (- i)))"

text \<open>
  A JavaScript value as \<open>JSON.parse\<close> produces it, plus \<open>undefined\<close> for an absent
  property. Numbers are integers: every number the client inspects (status, age, id) is
  one, and the code only tests numbers for truthiness. An object is an association list;
  the first binding of a key is the one a property read sees.
\<close>

datatype jsval =
    JUndefined
  | JNull
  | JBool bool
  | JNum int
  | JStr string
  | JArr "jsval list"
  | JObj "(string \<times> jsval) list"

fun truthy :: "jsval \<Rightarrow> bool" where
  "truthy JUndefined = False"
| "truthy JNull = False"
| "truthy (JBool b) = b"
| "truthy (JNum n) = (n \<noteq> 0)"
| "truthy (JStr s) = (s \<noteq> [])"
| "truthy (JArr xs) = True"
| "truthy (JObj kvs) = True"

text \<open>\<open>a || b\<close>: the left operand when it is truthy, the right one otherwise.\<close>

definition js_or :: "jsval \<Rightarrow> jsval \<Rightarrow> jsval" where
  "js_or a b = (if truthy a then a else b)"

text \<open>
  Reading the property \<open>k\<close> of a value that is neither \<open>null\<close> nor \<open>undefined\<close>
  (on those two the read throws, which the callers below handle before calling
  \<open>getProp\<close>). None of the keys the client probes is defined on a primitive or on an
  array, so only objects answer.
\<close>

fun getProp :: "jsval \<Rightarrow> string \<Rightarrow> jsval" where
  "getProp (JObj kvs) k = (case map_of kvs k of Some v \<Rightarrow> v | None \<Rightarrow> JUndefined)"
| "getProp v k = JUndefined"

text \<open>\<open>typeof v === 'object'\<close> holds for objects, arrays and \<open>null\<close>.\<close>

fun typeofObject :: "jsval \<Rightarrow> bool" where
  "typeofObject JNull = True"
| "typeofObject (JArr xs) = True"
| "typeofObject (JObj kvs) = True"
| "typeofObject v = False"

fun joinComma :: "string list \<Rightarrow> string" where
  "joinComma [] = []"
| "joinComma [s] = s"
| "joinComma (s # t # ts) = s @ '','' @ joinComma (t # ts)"

text \<open>
  \<open>String(v)\<close>, which is also how a value used as a property key is turned into the key.
  Inside an array, \<open>null\<close> and \<open>undefined\<close> render as the empty string.
\<close>

fun toJSString :: "jsval \<Rightarrow> string" where
  "toJSString JUndefined = ''undefined''"
| "toJSString JNull = ''null''"
| "toJSString (JBool b) = (if b then ''true'' else ''false'')"
| "toJSString (JNum n) = decimalInt n"
| "toJSString (JStr s) = s"
| "toJSString (JArr xs) =
     joinComma (map (\<lambda>x. if x = JNull \<or> x = JUndefined then [] else toJSString x) xs)"
| "toJSString (JObj kvs) = ''[object Object]''"

text \<open>The property names every plain object inherits from \<open>Object.prototype\<close>.\<close>

definition objectPrototypeKeys :: "string list" where
  "objectPrototypeKeys =
     [''constructor'', ''__defineGetter__'', ''__defineSetter__'', ''hasOwnProperty'',
      ''__lookupGetter__'', ''__lookupSetter__'', ''isPrototypeOf'', ''propertyIsEnumerable'',
      ''toString'', ''valueOf'', ''__proto__'', ''toLocaleString'']"

section \<open>Thrown errors, responses and the environment\<close>

text \<open>
  A thrown \<open>Error\<close> object with the properties the client reads from it. Every value
  thrown in these modules is an \<open>Error\<close> (a \<open>TypeError\<close> from \<open>fetch\<close> or from a
  property read, a \<open>DOMException\<close> named AbortError from the abort controller, or a
  plain \<open>Error\<close>). \<open>e_status = 0\<close> stands for an absent \<open>status\<close>: both are falsy
  and neither is \<open>\<ge> 500\<close> nor \<open>429\<close>.
\<close>

record jserror =
  e_instanceofTypeError :: bool
  e_name :: string
  e_message :: "string option"
  e_status :: nat
  e_statusText :: "string option"
  e_validationErrors :: jsval

definition newError :: "string \<Rightarrow> jserror" where
  "newError msg = \<lparr> e_instanceofTypeError = False, e_name = ''Error'', e_message = Some msg,
     e_status = 0, e_statusText = None, e_validationErrors = JUndefined \<rparr>"

definition newTypeError :: "string \<Rightarrow> jserror" where
  "newTypeError msg = \<lparr> e_instanceofTypeError = True, e_name = ''TypeError'',
     e_message = Some msg, e_status = 0, e_statusText = None, e_validationErrors = JUndefined \<rparr>"

text \<open>The engine's error for reading property \<open>k\<close> of \<open>null\<close> (V8's wording).\<close>

definition nullReadError :: "string \<Rightarrow> jserror" where
  "nullReadError k =
     newTypeError (''Cannot read properties of null (reading '' @ [CHR 0x27] @ k @ [CHR 0x27] @ '')'')"

definition notAFunctionError :: "string \<Rightarrow> jserror" where
  "notAFunctionError f = newTypeError (f @ '' is not a function'')"

text \<open>
  An HTTP response: status, status text, headers (names in lower case, as
  \<open>Headers.get\<close> compares them) and the body, which is either the text or the error
  with which reading the body stream rejects.
\<close>

record response =
  r_status :: nat
  r_statusText :: string
  r_headers :: "(string \<times> string) list"
  r_body :: "jserror + string"

definition headers_get :: "response \<Rightarrow> string \<Rightarrow> string option" where
  "headers_get r h = map_of (r_headers r) (toLowerCase h)"

definition headers_has :: "response \<Rightarrow> string \<Rightarrow> bool" where
  "headers_has r h = (headers_get r h \<noteq> None)"

text \<open>
  \<open>response.text()\<close> and \<open>response.json()\<close>. A body can be read once: the flag says
  whether an earlier read has already consumed it, in which case the read rejects.
  \<open>JSON.parse\<close> is the platform's; it is a parameter (\<open>None\<close> when it throws).
\<close>

definition bodyUsedError :: jserror where
  "bodyUsedError = newTypeError ''body stream already read''"

definition response_text :: "response \<Rightarrow> bool \<Rightarrow> jserror + string" where
  "response_text r bodyUsed = (if bodyUsed then Inl bodyUsedError else r_body r)"

definition jsonSyntaxError :: jserror where
  "jsonSyntaxError = \<lparr> e_instanceofTypeError = False, e_name = ''SyntaxError'',
     e_message = Some ''Unexpected token'', e_status = 0, e_statusText = None,
     e_validationErrors = JUndefined \<rparr>"

definition response_json :: "(string \<Rightarrow> jsval option) \<Rightarrow> response \<Rightarrow> bool \<Rightarrow> jserror + jsval" where
  "response_json parse r bodyUsed =
     (case response_text r bodyUsed of
        Inl e \<Rightarrow> Inl e
      | Inr t \<Rightarrow> (case parse t of None \<Rightarrow> Inl jsonSyntaxError | Some v \<Rightarrow> Inr v))"

datatype outcome = Throws jserror | Responds response

text \<open>
  A request as handed to \<open>fetch\<close>. The body is the value that is passed through
  \<open>JSON.stringify\<close>; the timeout is the delay of the abort timer armed for the request.
\<close>

record request =
  rq_method :: string
  rq_url :: string
  rq_body :: "jsval option"
  rq_headers :: "(string \<times> string) list"
  rq_mode :: "string option"
  rq_timeout :: nat

text \<open>
  What the client does to the outside world, in order: the requests it issues and the
  delays it sleeps.
\<close>

datatype event = Request request | Sleep nat

text \<open>
  The environment of one API operation: \<open>navigator.onLine\<close>, the outcome of the
  \<open>k\<close>-th request the operation issues (a rejection of \<open>fetch\<close>, which includes the
  abort at the timeout, or a response), \<open>JSON.parse\<close>, the clock, the random suffix of
  request ids and the user agent. The clock and \<open>navigator.onLine\<close> are read several
  times during an operation; they are taken as constant over it.
\<close>

record env =
  onLine :: bool
  net :: "nat \<Rightarrow> outcome"
  JSON_parse :: "string \<Rightarrow> jsval option"
  dateNow :: nat
  isoNow :: string
  random36 :: string
  env_userAgent :: string

record state =
  reqs :: nat
  trace :: "event list"

definition state0 :: state where
  "state0 = \<lparr> reqs = 0, trace = [] \<rparr>"

definition fetch :: "env \<Rightarrow> request \<Rightarrow> state \<Rightarrow> outcome \<times> state" where
  "fetch ev rq st =
     (net ev (reqs st), \<lparr> reqs = reqs st + 1, trace = trace st @ [Request rq] \<rparr>)"

definition sleep :: "nat \<Rightarrow> state \<Rightarrow> state" where
  "sleep ms st = st \<lparr> trace := trace st @ [Sleep ms] \<rparr>"


section \<open>The error classifier (\<open>utils/errorHandler.ts\<close>)\<close>

datatype ErrorType =
  NETWORK | API | VALIDATION | AUTHENTICATION | AUTHORIZATION | TIMEOUT | CORS | UNKNOWN

record ErrorContext =
  operation :: string
  requestData :: jsval
  c_timestamp :: string
  c_userAgent :: string
  networkStatus :: bool
  c_url :: "string option"
  c_method :: "string option"

record UserFriendlyError =
  u_type :: ErrorType
  u_message :: string
  technicalMessage :: "string option"
  suggestions :: "string list"
  retryable :: bool
  u_context :: ErrorContext

subsection \<open>The table \<open>ERROR_MESSAGES\<close>\<close>

definition NETWORK_TIMEOUT :: string where
  "NETWORK_TIMEOUT = ''Tempo limite excedido. Verifique sua conex'' @ [CHR 0xE3] @
     ''o e tente novamente.''"

definition NETWORK_OFFLINE :: string where
  "NETWORK_OFFLINE = ''Voc'' @ [CHR 0xEA] @ '' est'' @ [CHR 0xE1] @
     '' offline. Verifique sua conex'' @ [CHR 0xE3] @ ''o com a internet.''"

definition NETWORK_ERROR :: string where
  "NETWORK_ERROR = ''Erro de conex'' @ [CHR 0xE3] @
     ''o. Verifique sua internet e tente novamente.''"

definition SERVER_ERROR :: string where
  "SERVER_ERROR = ''Erro interno do servidor. Tente novamente em alguns minutos.''"

definition BAD_REQUEST :: string where
  "BAD_REQUEST = ''Dados inv'' @ [CHR 0xE1] @ ''lidos. Verifique os campos destacados.''"

definition UNAUTHORIZED :: string where
  "UNAUTHORIZED = ''Sess'' @ [CHR 0xE3] @ ''o expirada. Fa'' @ [CHR 0xE7] @
     ''a login novamente.''"

definition FORBIDDEN :: string where
  "FORBIDDEN = ''Voc'' @ [CHR 0xEA] @ '' n'' @ [CHR 0xE3] @ ''o tem permiss'' @ [CHR 0xE3] @
     ''o para realizar esta a'' @ [CHR 0xE7] @ [CHR 0xE3] @ ''o.''"

definition NOT_FOUND :: string where
  "NOT_FOUND = ''Recurso n'' @ [CHR 0xE3] @ ''o encontrado.''"

definition CONFLICT :: string where
  "CONFLICT = ''Conflito de dados. O recurso j'' @ [CHR 0xE1] @ '' existe ou est'' @
     [CHR 0xE1] @ '' sendo usado.''"

definition UNPROCESSABLE_ENTITY :: string where
  "UNPROCESSABLE_ENTITY = ''Dados n'' @ [CHR 0xE3] @
     ''o podem ser processados. Verifique as informa'' @ [CHR 0xE7] @ [CHR 0xF5] @ ''es.''"

definition TOO_MANY_REQUESTS :: string where
  "TOO_MANY_REQUESTS = ''Muitas tentativas. Aguarde alguns minutos e tente novamente.''"

definition SERVICE_UNAVAILABLE :: string where
  "SERVICE_UNAVAILABLE = ''Servi'' @ [CHR 0xE7] @ ''o temporariamente indispon'' @
     [CHR 0xED] @ ''vel. Tente novamente em alguns minutos.''"

definition CORS_ERROR :: string where
  "CORS_ERROR = ''Erro de configura'' @ [CHR 0xE7] @ [CHR 0xE3] @
     ''o do servidor. Contate o suporte t'' @ [CHR 0xE9] @ ''cnico.''"

definition UNKNOWN_ERROR :: string where
  "UNKNOWN_ERROR = ''Erro inesperado. Tente novamente ou contate o suporte.''"

definition CHECK_CONNECTION :: string where
  "CHECK_CONNECTION = ''Verifique sua conex'' @ [CHR 0xE3] @ ''o com a internet''"

definition TRY_AGAIN_LATER :: string where
  "TRY_AGAIN_LATER = ''Tente novamente em alguns minutos''"

definition CONTACT_SUPPORT :: string where
  "CONTACT_SUPPORT = ''Entre em contato com o suporte t'' @ [CHR 0xE9] @ ''cnico''"

definition CHECK_FORM_DATA :: string where
  "CHECK_FORM_DATA = ''Verifique os dados do formul'' @ [CHR 0xE1] @ ''rio''"

definition REFRESH_PAGE :: string where
  "REFRESH_PAGE = ''Recarregue a p'' @ [CHR 0xE1] @ ''gina e tente novamente''"

definition API_COMPATIBILITY_MESSAGE :: string where
  "API_COMPATIBILITY_MESSAGE = ''Formato de dados incompat'' @ [CHR 0xED] @
     ''vel com a API. A API Java pode estar esperando campos diferentes.''"

definition API_COMPATIBILITY_SUGGESTION_1 :: string where
  "API_COMPATIBILITY_SUGGESTION_1 = ''Verifique se a API Java est'' @ [CHR 0xE1] @
     '' configurada corretamente''"

definition API_COMPATIBILITY_SUGGESTION_2 :: string where
  "API_COMPATIBILITY_SUGGESTION_2 = ''Os campos enviados podem n'' @ [CHR 0xE3] @
     ''o corresponder ao esperado pela API''"

definition API_COMPATIBILITY_SUGGESTION_3 :: string where
  "API_COMPATIBILITY_SUGGESTION_3 = ''Contate o desenvolvedor da API Java para verificar o formato correto''"

definition CREATED_PLACEHOLDER_NAME :: string where
  "CREATED_PLACEHOLDER_NAME = ''Paciente criado com sucesso''"

subsection \<open>\<open>NetworkUtils\<close>\<close>

definition isOnline :: "env \<Rightarrow> bool" where
  "isOnline ev = onLine ev"

text \<open>\<open>error.message && error.message.includes(s)\<close> for a non-empty \<open>s\<close>.\<close>

definition messageIncludes :: "jserror \<Rightarrow> string \<Rightarrow> bool" where
  "messageIncludes e s =
     (case e_message e of None \<Rightarrow> False | Some m \<Rightarrow> m \<noteq> [] \<and> str_includes m s)"

definition messageLowerIncludes :: "jserror \<Rightarrow> string \<Rightarrow> bool" where
  "messageLowerIncludes e s =
     (case e_message e of None \<Rightarrow> False | Some m \<Rightarrow> m \<noteq> [] \<and> str_includes (toLowerCase m) s)"

text \<open>The argument is \<open>None\<close> for a falsy \<open>error\<close> (\<open>undefined\<close>).\<close>

definition isCorsError :: "jserror option \<Rightarrow> bool" where
  "isCorsError error =
     (case error of
        None \<Rightarrow> False
      | Some e \<Rightarrow>
          if e_instanceofTypeError e \<and> messageIncludes e ''Failed to fetch'' then True
          else if e_name e = ''TypeError'' \<and> messageLowerIncludes e ''cors'' then True
          else False)"

definition isNetworkError :: "env \<Rightarrow> jserror option \<Rightarrow> bool" where
  "isNetworkError ev error =
     (if \<not> isOnline ev then True
      else case error of
        None \<Rightarrow> False
      | Some e \<Rightarrow>
          if e_instanceofTypeError e \<and> messageIncludes e ''Failed to fetch'' then True
          else if e_name e = ''AbortError'' then True
          else False)"

subsection \<open>\<open>ErrorHandler\<close>\<close>

definition isApiCompatibilityIssue :: "ErrorContext \<Rightarrow> bool" where
  "isApiCompatibilityIssue context =
     (str_includes (operation context) ''Patient'' \<or>
      (case c_url context of None \<Rightarrow> False | Some u \<Rightarrow> str_includes u ''/paciente''))"

definition messageOr :: "string option \<Rightarrow> string \<Rightarrow> string" where
  "messageOr m d = (case m of None \<Rightarrow> d | Some s \<Rightarrow> if s = [] then d else s)"

definition handleHttpError :: "nat \<Rightarrow> string option \<Rightarrow> ErrorContext \<Rightarrow> UserFriendlyError" where
  "handleHttpError status message context =
     (if status = 400 then
        \<lparr> u_type = VALIDATION,
          u_message = (if isApiCompatibilityIssue context then API_COMPATIBILITY_MESSAGE
                       else BAD_REQUEST),
          technicalMessage = message,
          suggestions = (if isApiCompatibilityIssue context
                         then [API_COMPATIBILITY_SUGGESTION_1, API_COMPATIBILITY_SUGGESTION_2,
                               API_COMPATIBILITY_SUGGESTION_3]
                         else [CHECK_FORM_DATA]),
          retryable = False, u_context = context \<rparr>
      else if status = 401 then
        \<lparr> u_type = AUTHENTICATION, u_message = UNAUTHORIZED, technicalMessage = message,
          suggestions = [REFRESH_PAGE], retryable = False, u_context = context \<rparr>
      else if status = 403 then
        \<lparr> u_type = AUTHORIZATION, u_message = FORBIDDEN, technicalMessage = message,
          suggestions = [CONTACT_SUPPORT], retryable = False, u_context = context \<rparr>
      else if status = 404 then
        \<lparr> u_type = API, u_message = NOT_FOUND, technicalMessage = message,
          suggestions = [REFRESH_PAGE], retryable = False, u_context = context \<rparr>
      else if status = 409 then
        \<lparr> u_type = VALIDATION, u_message = CONFLICT, technicalMessage = message,
          suggestions = [CHECK_FORM_DATA], retryable = False, u_context = context \<rparr>
      else if status = 422 then
        \<lparr> u_type = VALIDATION, u_message = UNPROCESSABLE_ENTITY, technicalMessage = message,
          suggestions = [CHECK_FORM_DATA], retryable = False, u_context = context \<rparr>
      else if status = 429 then
        \<lparr> u_type = API, u_message = TOO_MANY_REQUESTS, technicalMessage = message,
          suggestions = [TRY_AGAIN_LATER], retryable = True, u_context = context \<rparr>
      else if status = 500 \<or> status = 502 \<or> status = 503 \<or> status = 504 then
        \<lparr> u_type = API,
          u_message = (if status = 503 then SERVICE_UNAVAILABLE else SERVER_ERROR),
          technicalMessage = message,
          suggestions = [TRY_AGAIN_LATER], retryable = True, u_context = context \<rparr>
      else
        \<lparr> u_type = API, u_message = UNKNOWN_ERROR,
          technicalMessage = Some (messageOr message (''HTTP '' @ decimalNat status)),
          suggestions = [TRY_AGAIN_LATER, CONTACT_SUPPORT],
          retryable = (status \<ge> 500), u_context = context \<rparr>)"

definition errorMessage :: "jserror option \<Rightarrow> string option" where
  "errorMessage error = (case error of None \<Rightarrow> None | Some e \<Rightarrow> e_message e)"

text \<open>The engine's error for reading a property of \<open>undefined\<close> (V8's wording).\<close>

definition undefinedReadError :: "string \<Rightarrow> jserror" where
  "undefinedReadError k =
     newTypeError (''Cannot read properties of undefined (reading '' @ [CHR 0x27] @ k @ [CHR 0x27] @ '')'')"

text \<open>
  \<open>ErrorHandler.handleApiError\<close>. The rules are tried in the order of the source. The
  result is \<open>Inl\<close> when the classifier itself throws, which it does on reading
  \<open>error.name\<close> of an \<open>undefined\<close> error. \<open>String(error)\<close> of an \<open>Error\<close> whose
  message is empty is its name.
\<close>

definition handleApiError :: "env \<Rightarrow> jserror option \<Rightarrow> ErrorContext \<Rightarrow> jserror + UserFriendlyError" where
  "handleApiError ev error context =
     (let enhancedContext = context \<lparr> networkStatus := onLine ev, c_timestamp := isoNow ev,
                                     c_userAgent := env_userAgent ev \<rparr>
      in
      if \<not> onLine ev then
        Inr \<lparr> u_type = NETWORK, u_message = NETWORK_OFFLINE, technicalMessage = None,
              suggestions = [CHECK_CONNECTION], retryable = True, u_context = enhancedContext \<rparr>
      else if isCorsError error then
        Inr \<lparr> u_type = CORS, u_message = CORS_ERROR, technicalMessage = errorMessage error,
              suggestions = [CONTACT_SUPPORT], retryable = False, u_context = enhancedContext \<rparr>
      else if isNetworkError ev error then
        Inr \<lparr> u_type = NETWORK, u_message = NETWORK_ERROR, technicalMessage = errorMessage error,
              suggestions = [CHECK_CONNECTION, TRY_AGAIN_LATER], retryable = True,
              u_context = enhancedContext \<rparr>
      else
        case error of
          None \<Rightarrow> Inl (undefinedReadError ''name'')
        | Some e \<Rightarrow>
            if e_name e = ''AbortError'' \<or> messageIncludes e ''timeout'' then
              Inr \<lparr> u_type = TIMEOUT, u_message = NETWORK_TIMEOUT, technicalMessage = None,
                    suggestions = [CHECK_CONNECTION, TRY_AGAIN_LATER], retryable = True,
                    u_context = enhancedContext \<rparr>
            else if e_status e \<noteq> 0 then
              Inr (handleHttpError (e_status e) (e_message e) enhancedContext)
            else
              Inr \<lparr> u_type = UNKNOWN, u_message = UNKNOWN_ERROR,
                    technicalMessage = Some (messageOr (e_message e) (e_name e)),
                    suggestions = [TRY_AGAIN_LATER, CONTACT_SUPPORT], retryable = True,
                    u_context = enhancedContext \<rparr>)"

section \<open>The patient client (\<open>services/patientApi.ts\<close>)\<close>

record RetryConfig =
  maxAttempts :: nat
  baseDelay :: nat
  maxDelay :: nat
  backoffMultiplier :: nat

definition BASE_URL :: string where
  "BASE_URL = ''https://sprint4-java-av1f.onrender.com''"

definition PatientApi_TIMEOUT :: nat where
  "PatientApi_TIMEOUT = 30000"

definition RETRY_CONFIG :: RetryConfig where
  "RETRY_CONFIG = \<lparr> maxAttempts = 3, baseDelay = 1000, maxDelay = 10000, backoffMultiplier = 2 \<rparr>"

subsection \<open>The resilient request executor\<close>

definition probeRequest :: request where
  "probeRequest = \<lparr> rq_method = ''HEAD'', rq_url = BASE_URL @ ''/main/pacientes'',
     rq_body = None, rq_headers = [], rq_mode = Some ''no-cors'', rq_timeout = 5000 \<rparr>"

text \<open>
  \<open>checkNetworkConnectivity\<close>: offline answers at once, without a request; otherwise a
  \<open>HEAD\<close> probe is sent, and a probe that throws counts as connected.
\<close>

definition checkNetworkConnectivity :: "env \<Rightarrow> state \<Rightarrow> bool \<times> state" where
  "checkNetworkConnectivity ev st =
     (if \<not> isOnline ev then (False, st)
      else case fetch ev probeRequest st of
             (Responds r, st1) \<Rightarrow> (r_status r < 500, st1)
           | (Throws e, st1) \<Rightarrow> (True, st1))"

definition corsHeaders :: "string list" where
  "corsHeaders = [''Access-Control-Allow-Origin'', ''Access-Control-Allow-Methods'',
                  ''Access-Control-Allow-Headers'']"

definition detectCorsIssue :: "jserror option \<Rightarrow> response option \<Rightarrow> bool" where
  "detectCorsIssue error resp =
     (if error \<noteq> None \<and> isCorsError error then True
      else case resp of
             None \<Rightarrow> False
           | Some r \<Rightarrow>
               if \<not> list_ex (headers_has r) corsHeaders \<and> r_status r = 0 then True else False)"

text \<open>
  \<open>getRetryDelay\<close>. \<open>Math.pow(2, attempt - 1)\<close> is a power of two for \<open>attempt \<ge> 1\<close>,
  and one half for \<open>attempt = 0\<close> (which no caller passes).
\<close>

definition getRetryDelay :: "nat \<Rightarrow> nat" where
  "getRetryDelay attempt =
     (let delay = (if attempt = 0 then baseDelay RETRY_CONFIG div backoffMultiplier RETRY_CONFIG
                   else baseDelay RETRY_CONFIG * backoffMultiplier RETRY_CONFIG ^ (attempt - 1))
      in min delay (maxDelay RETRY_CONFIG))"

definition shouldRetryRequest :: "env \<Rightarrow> jserror \<Rightarrow> nat \<Rightarrow> bool" where
  "shouldRetryRequest ev error attempt =
     (if attempt \<ge> maxAttempts RETRY_CONFIG then False
      else if isNetworkError ev (Some error) then True
      else if e_name error = ''AbortError'' then True
      else if e_status error \<ge> 500 then True
      else if e_status error = 429 then True
      else False)"

text \<open>
  \<open>fetchWithTimeout\<close>: one request with the two JSON headers and the 30 second abort
  timer. The abort shows as the outcome \<open>Throws\<close> of an AbortError, chosen by the
  environment. A call without a method is a \<open>GET\<close>, as \<open>fetch\<close> defaults it.
\<close>

definition jsonHeaders :: "(string \<times> string) list" where
  "jsonHeaders = [(''Content-Type'', ''application/json''), (''Accept'', ''application/json'')]"

definition timedRequest :: "string \<Rightarrow> string \<Rightarrow> jsval option \<Rightarrow> request" where
  "timedRequest url meth body =
     \<lparr> rq_method = meth, rq_url = url, rq_body = body, rq_headers = jsonHeaders,
       rq_mode = None, rq_timeout = PatientApi_TIMEOUT \<rparr>"

definition fetchWithTimeout :: "env \<Rightarrow> string \<Rightarrow> string \<Rightarrow> jsval option \<Rightarrow> state \<Rightarrow> outcome \<times> state" where
  "fetchWithTimeout ev url meth body st = fetch ev (timedRequest url meth body) st"

text \<open>
  The \<open>for\<close> loop of \<open>fetchWithRetry\<close>, from iteration \<open>attempt\<close> on. A response of any
  status is returned at once; a thrown error ends the loop (\<open>break\<close>) when it is a CORS
  error or \<open>shouldRetryRequest\<close> refuses, and otherwise the loop sleeps and goes on.
  The result \<open>Inl lastError\<close> is the final \<open>throw lastError\<close>.
\<close>

function fetchWithRetry_loop ::
  "env \<Rightarrow> string \<Rightarrow> string \<Rightarrow> jsval option \<Rightarrow> nat \<Rightarrow> jserror option \<Rightarrow> state
     \<Rightarrow> (jserror option + response) \<times> state" where
  "fetchWithRetry_loop ev url meth body attempt lastError st =
     (if attempt \<le> maxAttempts RETRY_CONFIG then
        (case fetchWithTimeout ev url meth body st of
           (Responds r, st1) \<Rightarrow> (Inr r, st1)
         | (Throws error, st1) \<Rightarrow>
             if detectCorsIssue (Some error) None then (Inl (Some error), st1)
             else if \<not> shouldRetryRequest ev error attempt then (Inl (Some error), st1)
             else fetchWithRetry_loop ev url meth body (attempt + 1) (Some error)
                    (if attempt < maxAttempts RETRY_CONFIG
                     then sleep (getRetryDelay attempt) st1 else st1))
      else (Inl lastError, st))"
  by pat_completeness auto
termination
  by (relation "measure (\<lambda>(ev, url, meth, body, attempt, lastError, st).
                           Suc (maxAttempts RETRY_CONFIG) - attempt)") auto

declare fetchWithRetry_loop.simps [simp del]

definition fetchWithRetry ::
  "env \<Rightarrow> string \<Rightarrow> string \<Rightarrow> jsval option \<Rightarrow> state \<Rightarrow> (jserror option + response) \<times> state" where
  "fetchWithRetry ev url meth body st =
     (case checkNetworkConnectivity ev st of
        (isConnected, st1) \<Rightarrow>
          if \<not> isConnected then (Inl (Some (newError ''No network connectivity'')), st1)
          else fetchWithRetry_loop ev url meth body 1 None st1)"

subsection \<open>The response normalizer\<close>

record ErrorInfo =
  ei_message :: jsval
  ei_validationErrors :: jsval
  ei_serverMessage :: jsval
  ei_code :: jsval
  ei_field :: jsval

record Details =
  validationErrors :: jsval
  serverMessage :: jsval
  statusText :: "string option"

text \<open>The result envelope \<open>ApiResponse\<close>; an absent field is \<open>JUndefined\<close> or \<open>None\<close>.\<close>

record ApiResponse =
  success :: bool
  data :: jsval
  error :: jsval
  status :: nat
  requestId :: string
  timestamp :: string
  details :: "Details option"

definition httpStatusMessage :: "response \<Rightarrow> jsval" where
  "httpStatusMessage r = JStr (''HTTP '' @ decimalNat (r_status r))"

definition textErrorData :: "response \<Rightarrow> string \<Rightarrow> jsval" where
  "textErrorData r textResponse =
     JObj [(''message'', js_or (JStr textResponse) (httpStatusMessage r))]"

definition isJsonContentType :: "response \<Rightarrow> bool" where
  "isJsonContentType r =
     (case headers_get r ''content-type'' of
        None \<Rightarrow> False
      | Some contentType \<Rightarrow> contentType \<noteq> [] \<and> str_includes contentType ''application/json'')"

text \<open>
  The first part of \<open>parseApiError\<close>: the nested \<open>try\<close> blocks that produce
  \<open>errorData\<close>. The read in the \<open>catch\<close> comes after a first read of the same body.
\<close>

definition parseApiError_errorData :: "env \<Rightarrow> response \<Rightarrow> jsval" where
  "parseApiError_errorData ev r =
     (case (if isJsonContentType r then response_json (JSON_parse ev) r False
            else case response_text r False of
                   Inl e \<Rightarrow> Inl e
                 | Inr textResponse \<Rightarrow> Inr (textErrorData r textResponse)) of
        Inr errorData \<Rightarrow> errorData
      | Inl e \<Rightarrow>
          (case response_text r True of
             Inr textResponse \<Rightarrow> textErrorData r textResponse
           | Inl e' \<Rightarrow> JObj [(''message'', httpStatusMessage r)]))"

text \<open>
  The \<open>forEach\<close> over \<open>errorData.errors\<close>, building the field-to-messages object in
  insertion order. Reading \<open>err.field\<close> of a \<open>null\<close> element throws; so does \<open>push\<close>
  on a key that the empty object inherits, whose value is not an array.
\<close>

definition pushMessage :: "(string \<times> jsval list) list \<Rightarrow> string \<Rightarrow> jsval \<Rightarrow> (string \<times> jsval list) list" where
  "pushMessage acc k m =
     (if map_of acc k = None then acc @ [(k, [m])]
      else map (\<lambda>(k', ms). if k' = k then (k', ms @ [m]) else (k', ms)) acc)"

fun foldErrors :: "jsval list \<Rightarrow> (string \<times> jsval list) list \<Rightarrow> jserror + (string \<times> jsval list) list" where
  "foldErrors [] acc = Inr acc"
| "foldErrors (err # rest) acc =
     (if err = JNull \<or> err = JUndefined then Inl (nullReadError ''field'')
      else if truthy (getProp err ''field'') \<and> truthy (getProp err ''message'') then
        (let k = toJSString (getProp err ''field'') in
         if k \<in> set objectPrototypeKeys
         then Inl (notAFunctionError ''validationErrors[err.field].push'')
         else foldErrors rest (pushMessage acc k (getProp err ''message'')))
      else foldErrors rest acc)"

definition parseApiError_validationErrors :: "jsval \<Rightarrow> jserror + jsval" where
  "parseApiError_validationErrors errorData =
     (if truthy (getProp errorData ''validationErrors'')
      then Inr (getProp errorData ''validationErrors'')
      else if truthy (getProp errorData ''errors'') then
        (case getProp errorData ''errors'' of
           JArr errs \<Rightarrow>
             (case foldErrors errs [] of
                Inl e \<Rightarrow> Inl e
              | Inr acc \<Rightarrow> Inr (JObj (map (\<lambda>(k, ms). (k, JArr ms)) acc)))
         | JObj kvs \<Rightarrow> Inr (JObj kvs)
         | _ \<Rightarrow> Inr JUndefined)
      else if truthy (getProp errorData ''field'') \<and> truthy (getProp errorData ''message'')
      then Inr (JObj [(toJSString (getProp errorData ''field''),
                       JArr [getProp errorData ''message''])])
      else Inr JUndefined)"

definition parseApiError :: "env \<Rightarrow> response \<Rightarrow> jserror + ErrorInfo" where
  "parseApiError ev r =
     (let errorData = parseApiError_errorData ev r in
      if errorData = JNull \<or> errorData = JUndefined then Inl (nullReadError ''message'')
      else
        (let message =
               js_or (js_or (js_or (js_or (getProp errorData ''message'')
                                          (getProp errorData ''error''))
                                   (getProp errorData ''detail''))
                            (getProp errorData ''msg''))
                     (httpStatusMessage r);
             smsg =
               js_or (js_or (getProp errorData ''message'') (getProp errorData ''error''))
                     (getProp errorData ''detail'')
         in case parseApiError_validationErrors errorData of
              Inl e \<Rightarrow> Inl e
            | Inr verrs \<Rightarrow>
                Inr \<lparr> ei_message = message, ei_validationErrors = verrs,
                      ei_serverMessage = smsg, ei_code = getProp errorData ''code'',
                      ei_field = getProp errorData ''field'' \<rparr>))"

text \<open>The field remapping of \<open>handleResponse\<close>, the same expression in both branches.\<close>

definition remapPatient :: "jsval \<Rightarrow> jsval" where
  "remapPatient patient =
     JObj [(''id'', getProp patient ''id''),
           (''name'', js_or (js_or (js_or (getProp patient ''nomeCompleto'')
                                          (getProp patient ''nome''))
                                   (getProp patient ''name'')) (JStr [])),
           (''cpf'', js_or (js_or (getProp patient ''cpfNumero'') (getProp patient ''cpf''))
                           (JStr [])),
           (''age'', js_or (js_or (js_or (getProp patient ''idadePaciente'')
                                         (getProp patient ''idade''))
                                  (getProp patient ''age'')) (JNum 0)),
           (''gender'', js_or (js_or (js_or (getProp patient ''sexo'')
                                            (getProp patient ''genero''))
                                     (getProp patient ''gender'')) (JStr [])),
           (''plan'', js_or (js_or (js_or (getProp patient ''planoSaude'')
                                          (getProp patient ''plano''))
                                   (getProp patient ''plan'')) (JStr []))]"

definition remapElement :: "jsval \<Rightarrow> jsval" where
  "remapElement patient =
     (if \<not> truthy patient \<or> \<not> typeofObject patient then patient else remapPatient patient)"

definition normalizeData :: "jsval \<Rightarrow> jsval" where
  "normalizeData rawData =
     (if truthy rawData \<and> typeofObject rawData then
        (case rawData of
           JArr patients \<Rightarrow> JArr (map remapElement patients)
         | _ \<Rightarrow>
             if truthy (getProp rawData ''nome'') \<or> truthy (getProp rawData ''idade'') \<or>
                truthy (getProp rawData ''genero'') \<or> truthy (getProp rawData ''plano'')
             then remapPatient rawData
             else rawData)
      else rawData)"

definition createdPlaceholder :: "env \<Rightarrow> string \<Rightarrow> jsval" where
  "createdPlaceholder ev responseText =
     JObj [(''success'', JBool True), (''message'', JStr responseText),
           (''id'', JNum (int (dateNow ev))), (''name'', JStr CREATED_PLACEHOLDER_NAME),
           (''cpf'', JStr []), (''age'', JNum 0), (''gender'', JStr []), (''plan'', JStr [])]"

definition responseRequestId :: "env \<Rightarrow> string" where
  "responseRequestId ev = ''resp_'' @ decimalNat (dateNow ev) @ ''_'' @ take 6 (random36 ev)"

definition thrownMessage :: "jserror \<Rightarrow> jsval" where
  "thrownMessage e = (case e_message e of None \<Rightarrow> JUndefined | Some m \<Rightarrow> JStr m)"

text \<open>The envelope built in the \<open>catch\<close> of \<open>handleResponse\<close>.\<close>

definition caughtEnvelope :: "env \<Rightarrow> jserror \<Rightarrow> ApiResponse" where
  "caughtEnvelope ev e =
     \<lparr> success = False, data = JUndefined, error = thrownMessage e, status = 0,
       requestId = responseRequestId ev, timestamp = isoNow ev, details = None \<rparr>"

definition PatientApi_handleResponse :: "env \<Rightarrow> response \<Rightarrow> ApiResponse" where
  "PatientApi_handleResponse ev r =
     (if r_status r = 200 \<or> r_status r = 201 then
        (case response_text r False of
           Inl e \<Rightarrow> caughtEnvelope ev e
         | Inr responseText \<Rightarrow>
             (let rawData =
                    (case JSON_parse ev responseText of
                       Some v \<Rightarrow> v
                     | None \<Rightarrow>
                         if r_status r = 201 \<and> responseText \<noteq> []
                         then createdPlaceholder ev responseText
                         else JObj [(''message'', JStr responseText)])
              in \<lparr> success = True, data = normalizeData rawData, error = JUndefined,
                   status = r_status r, requestId = responseRequestId ev,
                   timestamp = isoNow ev, details = None \<rparr>))
      else
        (case parseApiError ev r of
           Inl e \<Rightarrow> caughtEnvelope ev e
         | Inr errorInfo \<Rightarrow>
             \<lparr> success = False, data = JUndefined, error = ei_message errorInfo,
               status = r_status r, requestId = responseRequestId ev, timestamp = isoNow ev,
               details = Some \<lparr> validationErrors = ei_validationErrors errorInfo,
                                serverMessage = ei_serverMessage errorInfo,
                                statusText = Some (r_statusText r) \<rparr> \<rparr>))"

subsection \<open>The patient operations\<close>



definition errorRequestId :: "env \<Rightarrow> string" where
  "errorRequestId ev = ''err_'' @ decimalNat (dateNow ev) @ ''_'' @ take 6 (random36 ev)"

definition optString :: "string option \<Rightarrow> jsval" where
  "optString s = (case s of None \<Rightarrow> JUndefined | Some t \<Rightarrow> JStr t)"

text \<open>
  The \<open>catch\<close> block shared, up to the \<open>validationErrors\<close> detail, by the four patient
  operations: classify the thrown value and wrap the classification in an envelope. The
  thrown value is \<open>None\<close> for \<open>undefined\<close>. When the classifier throws, the operation's
  promise rejects (\<open>Inl\<close>).
\<close>

definition operationCatch ::
  "env \<Rightarrow> jserror option \<Rightarrow> ErrorContext \<Rightarrow> bool \<Rightarrow> jserror + ApiResponse" where
  "operationCatch ev thrown context withValidationErrors =
     (case handleApiError ev thrown context of
        Inl e \<Rightarrow> Inl e
      | Inr userFriendlyError \<Rightarrow>
          Inr \<lparr> success = False, data = JUndefined,
                error = JStr (u_message userFriendlyError),
                status = (case thrown of None \<Rightarrow> 0 | Some e \<Rightarrow> e_status e),
                requestId = errorRequestId ev, timestamp = isoNow ev,
                details = Some \<lparr>
                  validationErrors =
                    (if withValidationErrors
                     then (case thrown of None \<Rightarrow> JUndefined | Some e \<Rightarrow> e_validationErrors e)
                     else JUndefined),
                  serverMessage = optString (technicalMessage userFriendlyError),
                  statusText = (case thrown of None \<Rightarrow> None | Some e \<Rightarrow> e_statusText e) \<rparr> \<rparr>)"

definition operationContext ::
  "env \<Rightarrow> string \<Rightarrow> jsval \<Rightarrow> string \<Rightarrow> string \<Rightarrow> ErrorContext" where
  "operationContext ev opname reqData url meth =
     \<lparr> operation = opname, requestData = reqData, c_timestamp = isoNow ev,
       c_userAgent = env_userAgent ev, networkStatus = isOnline ev,
       c_url = Some url, c_method = Some meth \<rparr>"

definition getAllPatients :: "env \<Rightarrow> state \<Rightarrow> (jserror + ApiResponse) \<times> state" where
  "getAllPatients ev st =
     (let url = BASE_URL @ ''/main/pacientes'';
          context = operationContext ev ''getAllPatients'' JUndefined url ''GET''
      in case fetchWithRetry ev url ''GET'' None st of
           (Inr resp, st1) \<Rightarrow> (Inr (PatientApi_handleResponse ev resp), st1)
         | (Inl thrown, st1) \<Rightarrow> (operationCatch ev thrown context False, st1))"









section \<open>The consultation and exam clients (\<open>consultaApi.ts\<close>, \<open>exameApi.ts\<close>)\<close>

text \<open>
  Both classes have their own \<open>fetchWithTimeout\<close>, the same as the patient client's,
  and their own \<open>handleResponse\<close>; neither has a retry loop or a connectivity check.
\<close>

definition ConsultaApi_handleResponse :: "env \<Rightarrow> response \<Rightarrow> ApiResponse" where
  "ConsultaApi_handleResponse ev r =
     (if r_status r = 200 \<or> r_status r = 201 then
        (case response_text r False of
           Inl e \<Rightarrow> caughtEnvelope ev e
         | Inr responseText \<Rightarrow>
             \<lparr> success = True,
               data = (case JSON_parse ev responseText of
                         Some v \<Rightarrow> v
                       | None \<Rightarrow> JObj [(''message'', JStr responseText),
                                       (''success'', JBool True)]),
               error = JUndefined, status = r_status r, requestId = responseRequestId ev,
               timestamp = isoNow ev, details = None \<rparr>)
      else
        (case response_text r False of
           Inl e \<Rightarrow> caughtEnvelope ev e
         | Inr errorText \<Rightarrow>
             \<lparr> success = False, data = JUndefined,
               error = js_or (JStr errorText) (httpStatusMessage r),
               status = r_status r, requestId = responseRequestId ev, timestamp = isoNow ev,
               details = None \<rparr>))"

definition ExameApi_handleResponse :: "env \<Rightarrow> response \<Rightarrow> ApiResponse" where
  "ExameApi_handleResponse ev r =
     (if r_status r = 200 \<or> r_status r = 201 then
        (case response_text r False of
           Inl e \<Rightarrow> caughtEnvelope ev e
         | Inr responseText \<Rightarrow>
             \<lparr> success = True,
               data = (case JSON_parse ev responseText of
                         Some v \<Rightarrow> v
                       | None \<Rightarrow> JObj [(''message'', JStr responseText),
                                       (''success'', JBool True)]),
               error = JUndefined, status = r_status r, requestId = responseRequestId ev,
               timestamp = isoNow ev, details = None \<rparr>)
      else
        (case response_text r False of
           Inl e \<Rightarrow> caughtEnvelope ev e
         | Inr errorText \<Rightarrow>
             \<lparr> success = False, data = JUndefined,
               error = js_or (JStr errorText) (httpStatusMessage r),
               status = r_status r, requestId = responseRequestId ev, timestamp = isoNow ev,
               details = None \<rparr>))"










section \<open>Observations on a run and reference definitions\<close>

text \<open>
  An attempt is a request other than the connectivity probe. \<open>attempts\<close> counts them in
  a trace, \<open>sleeps\<close> lists the delays slept, and \<open>delaysBeforeAttempts\<close> gives, for
  each attempt in order, the delay slept immediately before it (\<open>None\<close> when the attempt
  is not preceded by a sleep).
\<close>

fun isAttempt :: "event \<Rightarrow> bool" where
  "isAttempt (Request rq) = (rq \<noteq> probeRequest)"
| "isAttempt (Sleep ms) = False"

definition attempts :: "event list \<Rightarrow> nat" where
  "attempts tr = length (filter isAttempt tr)"

fun sleeps :: "event list \<Rightarrow> nat list" where
  "sleeps [] = []"
| "sleeps (Sleep ms # es) = ms # sleeps es"
| "sleeps (Request rq # es) = sleeps es"






text \<open>
  The alternate-language keys of a patient record, as the specification lists them, and
  what it is for a raw object to exhibit one.
\<close>

definition spec_alternateKeys :: "string list" where
  "spec_alternateKeys =
     [''nomeCompleto'', ''nome'', ''cpfNumero'', ''idadePaciente'', ''idade'', ''sexo'',
      ''genero'', ''planoSaude'', ''plano'']"

fun spec_hasAlternateKey :: "jsval \<Rightarrow> bool" where
  "spec_hasAlternateKey (JObj kvs) = list_ex (\<lambda>k. map_of kvs k \<noteq> None) spec_alternateKeys"
| "spec_hasAlternateKey v = False"

section \<open>Concrete errors, responses and environments\<close>

definition abortError :: jserror where
  "abortError = \<lparr> e_instanceofTypeError = False, e_name = ''AbortError'',
     e_message = Some ''The operation was aborted.'', e_status = 0, e_statusText = None,
     e_validationErrors = JUndefined \<rparr>"

definition failedToFetch :: jserror where
  "failedToFetch = newTypeError ''Failed to fetch''"

definition opaqueResponse :: response where
  "opaqueResponse = \<lparr> r_status = 0, r_statusText = [], r_headers = [], r_body = Inr [] \<rparr>"

definition response500 :: response where
  "response500 = \<lparr> r_status = 500, r_statusText = ''Internal Server Error'',
     r_headers = [(''content-type'', ''text/plain'')], r_body = Inr ''upstream failure'' \<rparr>"

definition brokenBody200 :: response where
  "brokenBody200 = \<lparr> r_status = 200, r_statusText = ''OK'', r_headers = [],
     r_body = Inl (newTypeError ''network error'') \<rparr>"

text \<open>
  Sample environments: the device online or not, a given outcome for each request, and a
  \<open>JSON.parse\<close> that knows the listed texts. \<open>probeThen\<close> answers the first
  request (the connectivity probe of the patient client) with an opaque response, as a
  cross-origin \<open>no-cors\<close> request gets, and every later request with the given outcome.
\<close>

definition envWith :: "bool \<Rightarrow> (nat \<Rightarrow> outcome) \<Rightarrow> (string \<times> jsval) list \<Rightarrow> env" where
  "envWith online outcomes parses =
     \<lparr> onLine = online, net = outcomes, JSON_parse = (\<lambda>s. map_of parses s),
       dateNow = 1700000000000, isoNow = ''2023-11-14T22:13:20.000Z'',
       random36 = ''k3j9x2abc'', env_userAgent = ''Mozilla/5.0'' \<rparr>"

definition always :: "outcome \<Rightarrow> nat \<Rightarrow> outcome" where
  "always out k = out"

definition probeThen :: "outcome \<Rightarrow> nat \<Rightarrow> outcome" where
  "probeThen out k = (if k = 0 then Responds opaqueResponse else out)"

definition offlineEnv :: env where
  "offlineEnv = envWith False (always (Throws failedToFetch)) []"



definition pacientesUrl :: string where
  "pacientesUrl = BASE_URL @ ''/main/pacientes''"

definition errors422Text :: string where
  \<open>errors422Text = ''{"errors": [{"field":"cpf","message":"invalid"}]}''\<close>

definition errors422Json :: jsval where
  "errors422Json =
     JObj [(''errors'', JArr [JObj [(''field'', JStr ''cpf''), (''message'', JStr ''invalid'')]])]"

definition response422 :: "string \<Rightarrow> response" where
  "response422 contentType =
     \<lparr> r_status = 422, r_statusText = ''Unprocessable Entity'',
       r_headers = [(''content-type'', contentType)], r_body = Inr errors422Text \<rparr>"

definition response200 :: "string \<Rightarrow> response" where
  "response200 text =
     \<lparr> r_status = 200, r_statusText = ''OK'',
       r_headers = [(''content-type'', ''application/json'')], r_body = Inr text \<rparr>"

text \<open>
  Three raw patient objects: one with the keys of the first \<open>createPatient\<close> variant,
  one with the keys of the first \<open>updatePatient\<close> variant, and one in canonical shape
  with one more key.
\<close>

definition nomeCompletoPatient :: jsval where
  "nomeCompletoPatient =
     JObj [(''id'', JNum 1), (''nomeCompleto'', JStr ''Ana''),
           (''cpfNumero'', JStr ''12345678901''), (''idadePaciente'', JNum 30),
           (''sexo'', JStr ''F''), (''planoSaude'', JStr ''Unimed'')]"

definition nomeCompletoText :: string where
  \<open>nomeCompletoText = ''{"id":1,"nomeCompleto":"Ana","cpfNumero":"12345678901","idadePaciente":30,"sexo":"F","planoSaude":"Unimed"}''\<close>

definition nomePatient :: jsval where
  "nomePatient =
     JObj [(''id'', JNum 2), (''nome'', JStr ''Bia''), (''cpf'', JStr ''10987654321''),
           (''idade'', JNum 41), (''sexo'', JStr ''F''), (''plano'', JStr ''Amil'')]"

definition nomeText :: string where
  \<open>nomeText = ''{"id":2,"nome":"Bia","cpf":"10987654321","idade":41,"sexo":"F","plano":"Amil"}''\<close>

definition canonicalWithEmail :: jsval where
  "canonicalWithEmail =
     JObj [(''id'', JNum 3), (''name'', JStr ''Caio''), (''cpf'', JStr ''11122233344''),
           (''age'', JNum 52), (''gender'', JStr ''M''), (''plan'', JStr ''SUS''),
           (''email'', JStr ''caio@example.com'')]"

definition canonicalText :: string where
  \<open>canonicalText = ''{"id":3,"name":"Caio","cpf":"11122233344","age":52,"gender":"M","plan":"SUS","email":"caio@example.com"}''\<close>

definition canonicalArrayText :: string where
  "canonicalArrayText = ''['' @ canonicalText @ '']''"

definition parseTable :: "(string \<times> jsval) list" where
  "parseTable =
     [(errors422Text, errors422Json), (nomeCompletoText, nomeCompletoPatient),
      (nomeText, nomePatient), (canonicalText, canonicalWithEmail),
      (canonicalArrayText, JArr [canonicalWithEmail])]"

definition jsonEnv :: env where
  "jsonEnv = envWith True (always (Throws failedToFetch)) parseTable"

text \<open>The value a remapped field takes when none of its source keys is truthy.\<close>

definition spec_fieldDefault :: "string \<Rightarrow> jsval" where
  "spec_fieldDefault f = (if f = ''age'' then JNum 0 else JStr [])"




section \<open>Evaluation rules\<close>

lemmas executor_defs =
  fetchWithRetry_def checkNetworkConnectivity_def isOnline_def fetch_def fetchWithTimeout_def
  fetchWithRetry_loop.simps RETRY_CONFIG_def detectCorsIssue_def isCorsError_def
  shouldRetryRequest_def isNetworkError_def messageIncludes_def messageLowerIncludes_def
  sleep_def getRetryDelay_def toLowerCase_def lowerChar_def

lemmas sample_defs =
  envWith_def probeThen_def always_def state0_def opaqueResponse_def abortError_def
  failedToFetch_def newTypeError_def newError_def response500_def brokenBody200_def
  offlineEnv_def

lemmas normalizer_defs =
  PatientApi_handleResponse_def parseApiError_def parseApiError_errorData_def
  parseApiError_validationErrors_def isJsonContentType_def headers_get_def response_text_def
  response_json_def textErrorData_def httpStatusMessage_def js_or_def caughtEnvelope_def
  responseRequestId_def thrownMessage_def decimalNat.simps digit_char_def normalizeData_def
  remapElement_def remapPatient_def pushMessage_def

lemmas operation_defs =
  getAllPatients_def operationCatch_def operationContext_def handleApiError_def
  errorRequestId_def errorMessage_def optString_def

section \<open>The retry loop\<close>



lemma fetchWithTimeout_state:
  "fetchWithTimeout ev url meth body st =
     (net ev (reqs st),
      \<lparr> reqs = Suc (reqs st), trace = trace st @ [Request (timedRequest url meth body)] \<rparr>)"
  by (simp add: fetchWithTimeout_def fetch_def)

lemma loop_response:
  assumes "attempt \<le> maxAttempts RETRY_CONFIG" and "net ev (reqs st) = Responds r"
  shows "fetchWithRetry_loop ev url meth body attempt lastError st =
           (Inr r, \<lparr> reqs = Suc (reqs st),
                     trace = trace st @ [Request (timedRequest url meth body)] \<rparr>)"
  using assms by (subst fetchWithRetry_loop.simps) (simp add: fetchWithTimeout_state)

lemma loop_break:
  assumes "attempt \<le> maxAttempts RETRY_CONFIG" and "net ev (reqs st) = Throws e"
      and "detectCorsIssue (Some e) None \<or> \<not> shouldRetryRequest ev e attempt"
  shows "fetchWithRetry_loop ev url meth body attempt lastError st =
           (Inl (Some e), \<lparr> reqs = Suc (reqs st),
                            trace = trace st @ [Request (timedRequest url meth body)] \<rparr>)"
  using assms by (subst fetchWithRetry_loop.simps) (auto simp add: fetchWithTimeout_state)



lemma timedRequest_not_probe: "timedRequest url meth body \<noteq> probeRequest"
  by (simp add: timedRequest_def probeRequest_def)




section \<open>The claims\<close>

subsection \<open>C1: when an envelope reports success\<close>

text \<open>
  C1 says that a response is turned into an envelope with \<open>success = true\<close> exactly
  when its status is 200 or 201. All three \<open>handleResponse\<close> functions read the body
  inside a \<open>try\<close>; when the read rejects, the \<open>catch\<close> returns \<open>success = false\<close>
  with status 0, also for a response of status 200.
\<close>

theorem status_200_unreadable_body_fails:
  "r_status brokenBody200 = 200 \<and>
   \<not> success (PatientApi_handleResponse offlineEnv brokenBody200) \<and>
   \<not> success (ConsultaApi_handleResponse offlineEnv brokenBody200) \<and>
   \<not> success (ExameApi_handleResponse offlineEnv brokenBody200)"
  by (simp add: brokenBody200_def PatientApi_handleResponse_def ConsultaApi_handleResponse_def
        ExameApi_handleResponse_def response_text_def caughtEnvelope_def)

text \<open>
  C1 as amended: for the patient, consultation and exam clients alike, the envelope has
  \<open>success = true\<close> exactly when the response status is 200 or 201 and the body can be
  read; any other status gives \<open>success = false\<close>. Equivalently, \<open>success\<close> is true
  exactly when the envelope's own \<open>status\<close> field is 200 or 201.
\<close>

theorem handleResponse_success_iff:
  "(success (PatientApi_handleResponse ev r)
      \<longleftrightarrow> (r_status r = 200 \<or> r_status r = 201) \<and> (\<exists>t. r_body r = Inr t)) \<and>
   (success (ConsultaApi_handleResponse ev r)
      \<longleftrightarrow> (r_status r = 200 \<or> r_status r = 201) \<and> (\<exists>t. r_body r = Inr t)) \<and>
   (success (ExameApi_handleResponse ev r)
      \<longleftrightarrow> (r_status r = 200 \<or> r_status r = 201) \<and> (\<exists>t. r_body r = Inr t)) \<and>
   (success (PatientApi_handleResponse ev r)
      \<longleftrightarrow> status (PatientApi_handleResponse ev r) = 200 \<or>
          status (PatientApi_handleResponse ev r) = 201) \<and>
   (success (ConsultaApi_handleResponse ev r)
      \<longleftrightarrow> status (ConsultaApi_handleResponse ev r) = 200 \<or>
          status (ConsultaApi_handleResponse ev r) = 201) \<and>
   (success (ExameApi_handleResponse ev r)
      \<longleftrightarrow> status (ExameApi_handleResponse ev r) = 200 \<or>
          status (ExameApi_handleResponse ev r) = 201)"
  by (auto simp: PatientApi_handleResponse_def ConsultaApi_handleResponse_def
        ExameApi_handleResponse_def caughtEnvelope_def response_text_def Let_def
        split: sum.splits)

subsection \<open>C2: bounded attempts and the backoff schedule\<close>



subsection \<open>C3: HTTP 500 on every attempt\<close>

text \<open>
  Whatever its status, a response to the first attempt ends the call: it is normalized
  and returned, after one attempt and no delay.
\<close>

lemma response_is_returned_at_once:
  assumes "checkNetworkConnectivity ev st = (True, st1)" and "net ev (reqs st1) = Responds r"
  shows "getAllPatients ev st =
           (Inr (PatientApi_handleResponse ev r),
            \<lparr> reqs = Suc (reqs st1),
              trace = trace st1 @ [Request (timedRequest (BASE_URL @ ''/main/pacientes'')
                                             ''GET'' None)] \<rparr>)"
proof -
  have one: "1 \<le> maxAttempts RETRY_CONFIG" by (simp add: RETRY_CONFIG_def)
  show ?thesis
    using assms(1) loop_response[OF one assms(2)]
    by (simp add: getAllPatients_def fetchWithRetry_def Let_def)
qed

text \<open>
  C3 says that a server answering 500 is tried three times, with delays of 1000 ms and
  2000 ms in between. \<open>fetch\<close> resolves with a response for every status, and
  \<open>fetchWithRetry\<close> returns any response at once, so the tests of \<open>error.status\<close> in
  \<open>shouldRetryRequest\<close> are never reached with an HTTP status: listing the patients
  against such a server makes one attempt and sleeps never.
\<close>

theorem getAllPatients_500_not_retried:
  "getAllPatients (envWith True (probeThen (Responds response500)) []) state0 =
     (Inr \<lparr> success = False, data = JUndefined, error = JStr ''upstream failure'',
             status = 500, requestId = ''resp_1700000000000_k3j9x2'',
             timestamp = ''2023-11-14T22:13:20.000Z'',
             details = Some \<lparr> validationErrors = JUndefined,
                              serverMessage = JStr ''upstream failure'',
                              statusText = Some ''Internal Server Error'' \<rparr> \<rparr>,
      \<lparr> reqs = 2,
        trace = [Request probeRequest, Request (timedRequest pacientesUrl ''GET'' None)] \<rparr>) \<and>
   attempts (trace (snd (getAllPatients (envWith True (probeThen (Responds response500)) [])
                           state0))) = 1 \<and>
   sleeps (trace (snd (getAllPatients (envWith True (probeThen (Responds response500)) [])
                         state0))) = []"
proof -
  have run: "getAllPatients (envWith True (probeThen (Responds response500)) []) state0 =
     (Inr \<lparr> success = False, data = JUndefined, error = JStr ''upstream failure'',
             status = 500, requestId = ''resp_1700000000000_k3j9x2'',
             timestamp = ''2023-11-14T22:13:20.000Z'',
             details = Some \<lparr> validationErrors = JUndefined,
                              serverMessage = JStr ''upstream failure'',
                              statusText = Some ''Internal Server Error'' \<rparr> \<rparr>,
      \<lparr> reqs = 2,
        trace = [Request probeRequest, Request (timedRequest pacientesUrl ''GET'' None)] \<rparr>)"
    by (simp add: operation_defs executor_defs sample_defs normalizer_defs pacientesUrl_def
          Let_def)
  show ?thesis
    unfolding run by (simp add: attempts_def timedRequest_not_probe)
qed

subsection \<open>C4: a CORS failure is not retried\<close>

text \<open>
  C4: when an attempt fails with an error that \<open>detectCorsIssue\<close> classifies as CORS,
  the retry loop ends with that attempt, whatever its number: the failed request is the
  only event, no delay is slept and no further request is issued, and the error is
  thrown. In particular a call of \<open>fetchWithRetry\<close> whose connectivity check passes and
  whose first attempt fails so makes exactly one attempt.
\<close>

theorem cors_failure_is_not_retried:
  assumes "detectCorsIssue (Some e) None"
      and "attempt \<le> maxAttempts RETRY_CONFIG"
      and "net ev (reqs st) = Throws e"
  shows "fetchWithRetry_loop ev url meth body attempt lastError st =
           (Inl (Some e),
            \<lparr> reqs = Suc (reqs st),
              trace = trace st @ [Request (timedRequest url meth body)] \<rparr>) \<and>
         (checkNetworkConnectivity ev st0 = (True, st) \<longrightarrow>
            fetchWithRetry ev url meth body st0 =
              (Inl (Some e),
               \<lparr> reqs = Suc (reqs st),
                 trace = trace st @ [Request (timedRequest url meth body)] \<rparr>))"
proof -
  have one: "1 \<le> maxAttempts RETRY_CONFIG" by (simp add: RETRY_CONFIG_def)
  have first: "fetchWithRetry_loop ev url meth body 1 None st =
           (Inl (Some e),
            \<lparr> reqs = Suc (reqs st),
              trace = trace st @ [Request (timedRequest url meth body)] \<rparr>)"
    using loop_break[OF one assms(3)] assms(1) by simp
  have any: "fetchWithRetry_loop ev url meth body attempt lastError st =
           (Inl (Some e),
            \<lparr> reqs = Suc (reqs st),
              trace = trace st @ [Request (timedRequest url meth body)] \<rparr>)"
    using loop_break[OF assms(2) assms(3)] assms(1) by simp
  show ?thesis
    unfolding any using first by (simp add: fetchWithRetry_def)
qed

theorem cors_failure_is_not_retried_witness:
  "detectCorsIssue (Some failedToFetch) None \<and>
   (1::nat) \<le> maxAttempts RETRY_CONFIG \<and>
   net (envWith True (probeThen (Throws failedToFetch)) []) (reqs \<lparr> reqs = 1, trace = [Request probeRequest] \<rparr>)
     = Throws failedToFetch \<and>
   checkNetworkConnectivity (envWith True (probeThen (Throws failedToFetch)) []) state0
     = (True, \<lparr> reqs = 1, trace = [Request probeRequest] \<rparr>) \<and>
   fetchWithRetry (envWith True (probeThen (Throws failedToFetch)) []) pacientesUrl ''GET'' None state0 =
     (Inl (Some failedToFetch),
      \<lparr> reqs = 2, trace = [Request probeRequest, Request (timedRequest pacientesUrl ''GET'' None)] \<rparr>)"
proof -
  let ?ev = "envWith True (probeThen (Throws failedToFetch)) []"
  let ?st = "\<lparr> reqs = 1, trace = [Request probeRequest] \<rparr>"
  have h1: "detectCorsIssue (Some failedToFetch) None"
    by (simp add: detectCorsIssue_def isCorsError_def failedToFetch_def newTypeError_def
          messageIncludes_def)
  have h2: "(1::nat) \<le> maxAttempts RETRY_CONFIG" by (simp add: RETRY_CONFIG_def)
  have h3: "net ?ev (reqs ?st) = Throws failedToFetch"
    by (simp add: envWith_def probeThen_def)
  have h4: "checkNetworkConnectivity ?ev state0 = (True, ?st)"
    by (simp add: checkNetworkConnectivity_def isOnline_def envWith_def probeThen_def fetch_def
          state0_def opaqueResponse_def)
  show ?thesis
    using cors_failure_is_not_retried[OF h1 h2 h3, of pacientesUrl "''GET''" None None state0]
      h1 h2 h3 h4
    by simp
qed

subsection \<open>C5: listing the patients while offline\<close>

text \<open>
  C5: when \<open>navigator.onLine\<close> is false, \<open>getAllPatients\<close> issues no request at all
  (not even the connectivity probe: the state is returned unchanged) and returns an
  envelope with \<open>success = false\<close> and status 0, whose error is the message of the
  classification of the failure, and that classification has category \<open>NETWORK\<close>.
\<close>

theorem offline_getAllPatients:
  assumes "\<not> onLine ev"
  shows "getAllPatients ev state0 =
           (Inr \<lparr> success = False, data = JUndefined, error = JStr NETWORK_OFFLINE, status = 0,
                   requestId = errorRequestId ev, timestamp = isoNow ev,
                   details = Some \<lparr> validationErrors = JUndefined, serverMessage = JUndefined,
                                    statusText = None \<rparr> \<rparr>,
            state0) \<and>
         trace state0 = [] \<and>
         (\<exists>u. handleApiError ev (Some (newError ''No network connectivity''))
                (operationContext ev ''getAllPatients'' JUndefined
                   (BASE_URL @ ''/main/pacientes'') ''GET'') = Inr u \<and>
              u_type u = NETWORK \<and> u_message u = NETWORK_OFFLINE)"
  using assms
  by (simp add: getAllPatients_def fetchWithRetry_def checkNetworkConnectivity_def isOnline_def
        operationCatch_def handleApiError_def newError_def optString_def state0_def Let_def)

theorem offline_getAllPatients_witness:
  "\<not> onLine offlineEnv \<and>
   getAllPatients offlineEnv state0 =
     (Inr \<lparr> success = False, data = JUndefined, error = JStr NETWORK_OFFLINE, status = 0,
             requestId = ''err_1700000000000_k3j9x2'', timestamp = ''2023-11-14T22:13:20.000Z'',
             details = Some \<lparr> validationErrors = JUndefined, serverMessage = JUndefined,
                              statusText = None \<rparr> \<rparr>,
      \<lparr> reqs = 0, trace = [] \<rparr>)"
proof -
  have h: "\<not> onLine offlineEnv" by (simp add: offlineEnv_def envWith_def)
  have "errorRequestId offlineEnv = ''err_1700000000000_k3j9x2''"
    by (simp add: errorRequestId_def offlineEnv_def envWith_def decimalNat.simps digit_char_def)
  moreover have "isoNow offlineEnv = ''2023-11-14T22:13:20.000Z''"
    by (simp add: offlineEnv_def envWith_def)
  ultimately show ?thesis
    using offline_getAllPatients[OF h] h by (simp add: state0_def)
qed

subsection \<open>C6: how an abort is classified\<close>

text \<open>
  On a device that is online, an error named AbortError never gets past the rule for
  network errors; an error that is not named so, has no CORS signature and whose message
  contains "timeout" is classified \<open>TIMEOUT\<close> and retryable.
\<close>

lemma abort_is_taken_by_the_network_rule:
  assumes "onLine ev" and "e_name e = ''AbortError''"
  shows "\<exists>u. handleApiError ev (Some e) context = Inr u \<and> u_type u \<in> {CORS, NETWORK}"
  using assms by (simp add: handleApiError_def isNetworkError_def isOnline_def Let_def)

lemma timeout_message_is_classified_timeout:
  assumes "onLine ev" and "\<not> isCorsError (Some e)" and "e_name e \<noteq> ''AbortError''"
      and "messageIncludes e ''timeout''"
  shows "\<exists>u. handleApiError ev (Some e) context = Inr u \<and> u_type u = TIMEOUT \<and> retryable u"
proof -
  have "\<not> isNetworkError ev (Some e)"
    using assms by (auto simp: isNetworkError_def isCorsError_def isOnline_def split: if_splits)
  then show ?thesis
    using assms by (simp add: handleApiError_def Let_def)
qed

text \<open>
  C6 says that an error named AbortError, on a device that is online and without a CORS
  signature, is classified \<open>TIMEOUT\<close>. \<open>isNetworkError\<close> answers true for every
  AbortError, so the rule before the timeout rule takes it: the classifier returns
  \<open>NETWORK\<close>, and the test \<open>error.name === 'AbortError'\<close> of the timeout rule is never
  reached.
\<close>

theorem abortError_classified_as_network:
  "onLine (envWith True (always (Throws abortError)) []) \<and>
   e_name abortError = ''AbortError'' \<and>
   \<not> isCorsError (Some abortError) \<and>
   handleApiError (envWith True (always (Throws abortError)) []) (Some abortError)
     (operationContext (envWith True (always (Throws abortError)) []) ''getAllPatients''
        JUndefined pacientesUrl ''GET'') =
   Inr \<lparr> u_type = NETWORK, u_message = NETWORK_ERROR,
         technicalMessage = Some ''The operation was aborted.'',
         suggestions = [CHECK_CONNECTION, TRY_AGAIN_LATER], retryable = True,
         u_context = operationContext (envWith True (always (Throws abortError)) [])
                       ''getAllPatients'' JUndefined pacientesUrl ''GET'' \<rparr>"
  by (simp add: handleApiError_def isCorsError_def isNetworkError_def isOnline_def
        abortError_def envWith_def operationContext_def errorMessage_def messageIncludes_def
        messageLowerIncludes_def)

subsection \<open>C7: when the patient fields are remapped\<close>

lemmas json_defs =
  jsonEnv_def envWith_def parseTable_def errors422Text_def errors422Json_def
  nomeCompletoText_def nomeCompletoPatient_def nomeText_def nomePatient_def canonicalText_def
  canonicalWithEmail_def canonicalArrayText_def response200_def response422_def

lemma parse_nomeCompleto: "JSON_parse jsonEnv nomeCompletoText = Some nomeCompletoPatient"
  by (simp add: json_defs)
lemma parse_nome: "JSON_parse jsonEnv nomeText = Some nomePatient"
  by (simp add: json_defs)
lemma parse_canonical: "JSON_parse jsonEnv canonicalText = Some canonicalWithEmail"
  by (simp add: json_defs)
lemma parse_canonicalArray: "JSON_parse jsonEnv canonicalArrayText = Some (JArr [canonicalWithEmail])"
  by (simp add: json_defs)
lemma parse_errors422: "JSON_parse jsonEnv errors422Text = Some errors422Json"
  by (simp add: json_defs)

lemma handleResponse_data:
  assumes "r_status r = 200 \<or> r_status r = 201" and "r_body r = Inr text"
      and "JSON_parse ev text = Some raw"
  shows "data (PatientApi_handleResponse ev r) = normalizeData raw"
  using assms by (auto simp: PatientApi_handleResponse_def response_text_def)

text \<open>
  C7 says that the remapping is applied exactly to the raw objects that exhibit an
  alternate-language key. A single object with the keys \<open>nomeCompleto\<close>, \<open>cpfNumero\<close>,
  \<open>idadePaciente\<close>, \<open>sexo\<close> and \<open>planoSaude\<close> has such keys and is passed through as
  it is; an array element in canonical shape has none and is rebuilt all the same,
  which drops its other keys.
\<close>

theorem remapping_gate_counterexample:
  "spec_hasAlternateKey nomeCompletoPatient \<and>
   data (PatientApi_handleResponse jsonEnv (response200 nomeCompletoText)) = nomeCompletoPatient \<and>
   nomeCompletoPatient \<noteq> remapPatient nomeCompletoPatient \<and>
   \<not> spec_hasAlternateKey canonicalWithEmail \<and>
   data (PatientApi_handleResponse jsonEnv (response200 canonicalArrayText))
     = JArr [remapPatient canonicalWithEmail] \<and>
   remapPatient canonicalWithEmail \<noteq> canonicalWithEmail"
proof -
  have a: "data (PatientApi_handleResponse jsonEnv (response200 nomeCompletoText))
             = normalizeData nomeCompletoPatient"
    by (rule handleResponse_data[OF _ _ parse_nomeCompleto]) (simp_all add: response200_def)
  have b: "data (PatientApi_handleResponse jsonEnv (response200 canonicalArrayText))
             = normalizeData (JArr [canonicalWithEmail])"
    by (rule handleResponse_data[OF _ _ parse_canonicalArray]) (simp_all add: response200_def)
  have c: "normalizeData nomeCompletoPatient = nomeCompletoPatient"
    by (simp add: normalizeData_def nomeCompletoPatient_def)
  have d: "normalizeData (JArr [canonicalWithEmail]) = JArr [remapPatient canonicalWithEmail]"
    by (simp add: normalizeData_def remapElement_def canonicalWithEmail_def)
  have e: "spec_hasAlternateKey nomeCompletoPatient"
    by (simp add: nomeCompletoPatient_def spec_alternateKeys_def)
  have f: "\<not> spec_hasAlternateKey canonicalWithEmail"
    by (simp add: canonicalWithEmail_def spec_alternateKeys_def)
  have g: "nomeCompletoPatient \<noteq> remapPatient nomeCompletoPatient"
    by (simp add: nomeCompletoPatient_def remapPatient_def)
  have h: "remapPatient canonicalWithEmail \<noteq> canonicalWithEmail"
    by (simp add: canonicalWithEmail_def remapPatient_def)
  show ?thesis using a b c d e f g h by simp
qed

lemma normalizeData_canonical:
  assumes "\<not> spec_hasAlternateKey (JObj kvs)"
  shows "normalizeData (JObj kvs) = JObj kvs"
  using assms by (simp add: normalizeData_def spec_alternateKeys_def)

lemma js_or_default: "truthy (js_or a d) \<or> js_or a d = d"
  by (simp add: js_or_def)

lemma remapPatient_fields:
  "f \<in> set [''name'', ''cpf'', ''age'', ''gender'', ''plan''] \<Longrightarrow>
   truthy (getProp (remapPatient p) f) \<or> getProp (remapPatient p) f = spec_fieldDefault f"
  by (auto simp: remapPatient_def spec_fieldDefault_def js_or_default)

text \<open>
  C7 as amended: for a response of status 200 or 201 whose body parses, every element of
  an array that is an object (or an array) is remapped, whatever its keys; a single
  object is remapped when its \<open>nome\<close>, \<open>idade\<close>, \<open>genero\<close> or \<open>plano\<close> is truthy,
  and is passed through unmodified when it has none of the alternate-language keys. A
  remapped field is never \<open>undefined\<close>: it is a truthy source value or the default,
  the empty string or 0.
\<close>

theorem patient_remapping:
  assumes "r_status r = 200 \<or> r_status r = 201"
      and "r_body r = Inr text"
      and "JSON_parse ev text = Some raw"
  shows "(raw = JArr patients \<longrightarrow>
            data (PatientApi_handleResponse ev r) =
              JArr (map (\<lambda>p. case p of JObj kvs \<Rightarrow> remapPatient p
                                      | JArr xs \<Rightarrow> remapPatient p
                                      | _ \<Rightarrow> p) patients)) \<and>
         (raw = JObj kvs \<and>
          (truthy (getProp raw ''nome'') \<or> truthy (getProp raw ''idade'') \<or>
           truthy (getProp raw ''genero'') \<or> truthy (getProp raw ''plano'')) \<longrightarrow>
            data (PatientApi_handleResponse ev r) = remapPatient raw) \<and>
         (raw = JObj kvs \<and> \<not> spec_hasAlternateKey raw \<longrightarrow>
            data (PatientApi_handleResponse ev r) = raw) \<and>
         (f \<in> set [''name'', ''cpf'', ''age'', ''gender'', ''plan''] \<longrightarrow>
            getProp (remapPatient p) f \<noteq> JUndefined \<and>
            (truthy (getProp (remapPatient p) f) \<or>
             getProp (remapPatient p) f = spec_fieldDefault f))"
proof -
  have d: "data (PatientApi_handleResponse ev r) = normalizeData raw"
    using assms by (rule handleResponse_data)
  have el: "remapElement = (\<lambda>p. case p of JObj kvs \<Rightarrow> remapPatient p
                                      | JArr xs \<Rightarrow> remapPatient p | _ \<Rightarrow> p)"
    by (rule ext) (simp add: remapElement_def split: jsval.splits)
  have arr: "raw = JArr patients \<longrightarrow> normalizeData raw = JArr (map remapElement patients)"
    by (simp add: normalizeData_def)
  have single: "raw = JObj kvs \<and>
          (truthy (getProp raw ''nome'') \<or> truthy (getProp raw ''idade'') \<or>
           truthy (getProp raw ''genero'') \<or> truthy (getProp raw ''plano'')) \<longrightarrow>
          normalizeData raw = remapPatient raw"
    by (auto simp: normalizeData_def)
  have canon: "raw = JObj kvs \<and> \<not> spec_hasAlternateKey raw \<longrightarrow> normalizeData raw = raw"
    using normalizeData_canonical by blast
  have fld: "f \<in> set [''name'', ''cpf'', ''age'', ''gender'', ''plan''] \<longrightarrow>
            getProp (remapPatient p) f \<noteq> JUndefined \<and>
            (truthy (getProp (remapPatient p) f) \<or>
             getProp (remapPatient p) f = spec_fieldDefault f)"
  proof
    assume m: "f \<in> set [''name'', ''cpf'', ''age'', ''gender'', ''plan'']"
    from remapPatient_fields[OF m]
    have t: "truthy (getProp (remapPatient p) f) \<or> getProp (remapPatient p) f = spec_fieldDefault f" .
    moreover have "spec_fieldDefault f \<noteq> JUndefined" by (simp add: spec_fieldDefault_def)
    ultimately show "getProp (remapPatient p) f \<noteq> JUndefined \<and>
            (truthy (getProp (remapPatient p) f) \<or>
             getProp (remapPatient p) f = spec_fieldDefault f)"
      by auto
  qed
  show ?thesis unfolding d using arr single canon fld el by simp
qed


theorem patient_remapping_witness:
  "(r_status (response200 canonicalArrayText) = 200 \<or>
    r_status (response200 canonicalArrayText) = 201) \<and>
   r_body (response200 canonicalArrayText) = Inr canonicalArrayText \<and>
   JSON_parse jsonEnv canonicalArrayText = Some (JArr [canonicalWithEmail]) \<and>
   data (PatientApi_handleResponse jsonEnv (response200 canonicalArrayText)) =
     JArr [JObj [(''id'', JNum 3), (''name'', JStr ''Caio''), (''cpf'', JStr ''11122233344''),
                 (''age'', JNum 52), (''gender'', JStr ''M''), (''plan'', JStr ''SUS'')]] \<and>
   JSON_parse jsonEnv nomeText = Some nomePatient \<and>
   truthy (getProp nomePatient ''nome'') \<and>
   data (PatientApi_handleResponse jsonEnv (response200 nomeText)) =
     JObj [(''id'', JNum 2), (''name'', JStr ''Bia''), (''cpf'', JStr ''10987654321''),
           (''age'', JNum 41), (''gender'', JStr ''F''), (''plan'', JStr ''Amil'')] \<and>
   JSON_parse jsonEnv canonicalText = Some canonicalWithEmail \<and>
   \<not> spec_hasAlternateKey canonicalWithEmail \<and>
   data (PatientApi_handleResponse jsonEnv (response200 canonicalText)) = canonicalWithEmail \<and>
   ''age'' \<in> set [''name'', ''cpf'', ''age'', ''gender'', ''plan''] \<and>
   getProp (remapPatient (JObj [])) ''age'' = JNum 0"
proof -
  have st: "\<And>t. r_status (response200 t) = 200 \<or> r_status (response200 t) = 201"
    and bd: "\<And>t. r_body (response200 t) = Inr t"
    by (simp_all add: response200_def)
  have nome: "truthy (getProp nomePatient ''nome'')" by (simp add: nomePatient_def)
  have canon: "\<not> spec_hasAlternateKey canonicalWithEmail"
    by (simp add: canonicalWithEmail_def spec_alternateKeys_def)
  have age: "''age'' \<in> set [''name'', ''cpf'', ''age'', ''gender'', ''plan'']" by simp
  note w1 = patient_remapping[OF st bd parse_canonicalArray,
              of "[canonicalWithEmail]" "[]" "''age''" "JObj []"]
  note w2 = patient_remapping[OF st bd parse_nome, of "[]" _ "''age''" "JObj []"]
  note w3 = patient_remapping[OF st bd parse_canonical, of "[]" _ "''age''" "JObj []"]
  have r1: "remapPatient canonicalWithEmail =
     JObj [(''id'', JNum 3), (''name'', JStr ''Caio''), (''cpf'', JStr ''11122233344''),
           (''age'', JNum 52), (''gender'', JStr ''M''), (''plan'', JStr ''SUS'')]"
    by (simp add: remapPatient_def canonicalWithEmail_def js_or_def)
  have r2: "remapPatient nomePatient =
     JObj [(''id'', JNum 2), (''name'', JStr ''Bia''), (''cpf'', JStr ''10987654321''),
           (''age'', JNum 41), (''gender'', JStr ''F''), (''plan'', JStr ''Amil'')]"
    by (simp add: remapPatient_def nomePatient_def js_or_def)
  have r3: "getProp (remapPatient (JObj [])) ''age'' = JNum 0"
    by (simp add: remapPatient_def js_or_def)
  have d1: "data (PatientApi_handleResponse jsonEnv (response200 canonicalArrayText)) =
              JArr [remapPatient canonicalWithEmail]"
    using w1 by (simp add: canonicalWithEmail_def)
  have d2: "data (PatientApi_handleResponse jsonEnv (response200 nomeText)) =
              remapPatient nomePatient"
    using w2 nome by (simp add: nomePatient_def)
  have d3: "data (PatientApi_handleResponse jsonEnv (response200 canonicalText)) =
              canonicalWithEmail"
    using w3 canon by (simp add: canonicalWithEmail_def)
  show ?thesis
    using st bd parse_canonicalArray parse_nome parse_canonical nome canon age d1 d2 d3 r1 r2 r3
    by simp
qed

subsection \<open>C8: validation errors of a 422 response\<close>

text \<open>
  C8 says that a 422 response with the body
  \<open>{"errors": [{"field":"cpf","message":"invalid"}]}\<close> gives the validation errors
  \<open>{"cpf": ["invalid"]}\<close>. \<open>parseApiError\<close> parses the body as JSON only when the
  \<open>content-type\<close> header contains \<open>application/json\<close>; sent as \<open>text/plain\<close>, the
  same body becomes the error message and \<open>validationErrors\<close> stays \<open>undefined\<close>.
\<close>

theorem validation_errors_need_json_content_type:
  "r_status (response422 ''text/plain'') = 422 \<and>
   r_body (response422 ''text/plain'') = Inr errors422Text \<and>
   JSON_parse jsonEnv errors422Text = Some errors422Json \<and>
   PatientApi_handleResponse jsonEnv (response422 ''text/plain'') =
     \<lparr> success = False, data = JUndefined, error = JStr errors422Text, status = 422,
       requestId = ''resp_1700000000000_k3j9x2'', timestamp = ''2023-11-14T22:13:20.000Z'',
       details = Some \<lparr> validationErrors = JUndefined, serverMessage = JStr errors422Text,
                        statusText = Some ''Unprocessable Entity'' \<rparr> \<rparr>"
proof -
  have "PatientApi_handleResponse jsonEnv (response422 ''text/plain'') =
     \<lparr> success = False, data = JUndefined, error = JStr errors422Text, status = 422,
       requestId = ''resp_1700000000000_k3j9x2'', timestamp = ''2023-11-14T22:13:20.000Z'',
       details = Some \<lparr> validationErrors = JUndefined, serverMessage = JStr errors422Text,
                        statusText = Some ''Unprocessable Entity'' \<rparr> \<rparr>"
    by (simp add: normalizer_defs response422_def jsonEnv_def envWith_def errors422Text_def
          toLowerCase_def lowerChar_def Let_def)
  then show ?thesis using parse_errors422 by (simp add: response422_def)
qed

text \<open>
  C8 as amended: a 422 response whose \<open>content-type\<close> header contains
  \<open>application/json\<close> and whose body is that JSON text gives an envelope with
  \<open>success = false\<close>, status 422 and \<open>details.validationErrors\<close> equal to
  \<open>{"cpf": ["invalid"]}\<close>.
\<close>

theorem validation_errors_422:
  assumes "r_status r = 422"
      and "isJsonContentType r"
      and "r_body r = Inr text"
      and "JSON_parse ev text = Some errors422Json"
  shows "success (PatientApi_handleResponse ev r) = False \<and>
         status (PatientApi_handleResponse ev r) = 422 \<and>
         map_option validationErrors (details (PatientApi_handleResponse ev r)) =
           Some (JObj [(''cpf'', JArr [JStr ''invalid''])])"
proof -
  have ed: "parseApiError_errorData ev r = errors422Json"
    using assms by (simp add: parseApiError_errorData_def response_json_def response_text_def)
  have ve: "parseApiError_validationErrors errors422Json =
              Inr (JObj [(''cpf'', JArr [JStr ''invalid''])])"
    by (simp add: parseApiError_validationErrors_def errors422Json_def objectPrototypeKeys_def
          pushMessage_def Let_def)
  have "errors422Json \<noteq> JNull \<and> errors422Json \<noteq> JUndefined"
    by (simp add: errors422Json_def)
  then show ?thesis
    using assms(1) ed ve by (simp add: PatientApi_handleResponse_def parseApiError_def Let_def)
qed

theorem validation_errors_422_witness:
  "r_status (response422 ''application/json'') = 422 \<and>
   isJsonContentType (response422 ''application/json'') \<and>
   r_body (response422 ''application/json'') = Inr errors422Text \<and>
   JSON_parse jsonEnv errors422Text = Some errors422Json \<and>
   success (PatientApi_handleResponse jsonEnv (response422 ''application/json'')) = False \<and>
   map_option validationErrors
     (details (PatientApi_handleResponse jsonEnv (response422 ''application/json''))) =
     Some (JObj [(''cpf'', JArr [JStr ''invalid''])])"
proof -
  have h1: "r_status (response422 ''application/json'') = 422"
    and h3: "r_body (response422 ''application/json'') = Inr errors422Text"
    by (simp_all add: response422_def)
  have h2: "isJsonContentType (response422 ''application/json'')"
    by (simp add: isJsonContentType_def headers_get_def response422_def toLowerCase_def
          lowerChar_def)
  show ?thesis
    using validation_errors_422[OF h1 h2 h3 parse_errors422] h1 h2 h3 parse_errors422 by simp
qed

subsection \<open>C9: which operations run through the executor\<close>




















subsection \<open>C10: the gender sent by \<open>createPatient\<close>\<close>




end
